theory Spec2Isabelle
  imports Complex_Main "HOL-Library.Log_Nat"
begin

section \<open>Data model of \<open>apps/studio/src/lib/projects/create.ts\<close>\<close>

text \<open>
  The file defines one class, \<open>CreateManager\<close>, a small state machine over four observable
  fields. It talks to three things that live outside the class: the window's timer queue
  (\<open>setTimeout\<close>/\<open>clearTimeout\<close>), the window's IPC bridge (\<open>window.api.on\<close>,
  \<open>removeAllListeners\<close>, \<open>invokeMainChannel\<close>) and the owning \<open>ProjectsManager\<close>.
  All three are made explicit in a record \<open>world\<close> that every operation takes and returns.
  Times are naturals (milliseconds). \<open>progress\<close> is a JavaScript number, an IEEE 754
  double, and \<open>+=\<close> on it is double addition.
\<close>

datatype CreateState = PROMPT | IMPORT | CREATE_LOADING | ERROR

definition SLOW_CREATE_MESSAGES :: "(nat \<times> string) list" where
  "SLOW_CREATE_MESSAGES =
    [(15000, ''Finalizing layout...''),
     (30000, ''Drafting copy...''),
     (45000, ''Finalizing design...''),
     (60000, ''Completing setup...''),
     (75000, ''Starting project...'')]"

type_synonym ImageMessageContext = string

section \<open>JavaScript numbers\<close>

text \<open>
  A JavaScript number is a binary64 value: a finite double, given by its rational value
  (\<open>Num\<close>, with \<open>Num 0\<close> for \<open>+0\<close>), negative zero, \<open>NaN\<close>, or one of the
  infinities.
\<close>

datatype number = Num rat | NegZero | NaN | Infinity | NegInfinity

definition pow2 :: "int \<Rightarrow> rat" where
  "pow2 e = (if 0 \<le> e then 2 ^ nat e else 1 / 2 ^ nat (- e))"

text \<open>The exponent \<open>e\<close> with \<open>2^e \<le> |s| < 2^(e+1)\<close>, for \<open>s\<close> not zero.\<close>

definition binade :: "rat \<Rightarrow> int" where
  "binade s =
    (let (p, q) = quotient_of \<bar>s\<bar>;
         d = bitlen p - bitlen q
     in if pow2 d \<le> \<bar>s\<bar> then d else d - 1)"

definition round_half_even :: "rat \<Rightarrow> int" where
  "round_half_even k =
    (let f = \<lfloor>k\<rfloor>; d = k - of_int f
     in if d < 1 / 2 then f
        else if 1 / 2 < d then f + 1
        else if even f then f else f + 1)"

text \<open>
  Rounding an exact result to binary64, to nearest with ties to even: 53 significant bits,
  the spacing of the subnormals below \<open>2^-1022\<close>, an infinity from \<open>2^1024\<close> on, and a
  zero with the sign of the exact result.
\<close>

definition to_double :: "rat \<Rightarrow> number" where
  "to_double s =
    (if s = 0 then Num 0
     else
       (let e = max (binade s) (- 1022);
            ulp = pow2 (e - 52);
            r = of_int (round_half_even (s / ulp)) * ulp
        in if pow2 1024 \<le> \<bar>r\<bar> then (if 0 < s then Infinity else NegInfinity)
           else if r = 0 then (if 0 < s then Num 0 else NegZero)
           else Num r))"

text \<open>The \<open>+\<close> of two numbers.\<close>

fun js_add :: "number \<Rightarrow> number \<Rightarrow> number" where
  "js_add NaN _ = NaN"
| "js_add _ NaN = NaN"
| "js_add Infinity NegInfinity = NaN"
| "js_add NegInfinity Infinity = NaN"
| "js_add Infinity _ = Infinity"
| "js_add _ Infinity = Infinity"
| "js_add NegInfinity _ = NegInfinity"
| "js_add _ NegInfinity = NegInfinity"
| "js_add NegZero NegZero = NegZero"
| "js_add NegZero (Num y) = Num y"
| "js_add (Num x) NegZero = Num x"
| "js_add (Num x) (Num y) = to_double (x + y)"

section \<open>The manager and its surroundings\<close>

text \<open>
  \<open>CreateProjectResponse\<close> is imported from \<open>@onlook/models\<close>; the fields are the ones
  \<open>sendPrompt\<close> reads: \<open>success\<close>, \<open>response?.projectPath\<close>, \<open>response?.content\<close> and
  \<open>error\<close>. An optional field that is absent is \<open>None\<close>.
\<close>

record CreateResponseBody =
  projectPath :: string
  content :: "string option"

record CreateProjectResponse =
  success :: bool
  response :: "CreateResponseBody option"
  error :: "string option"

text \<open>
  The value of \<open>await p\<close>: the promise is fulfilled with a value, or it is rejected and the
  \<open>await\<close> throws. \<open>invokeMainChannel\<close> is imported from \<open>../utils\<close>; nothing is assumed
  about it but that it returns a promise, whose outcome is a parameter of each continuation.
\<close>

datatype 'a settled = Fulfilled 'a | Rejected string

datatype thrown = Thrown string

record ProjectCommands =
  install :: string
  run :: string
  build :: string

record Project =
  name :: string
  url :: string
  folderPath :: string
  commands :: ProjectCommands

datatype ProjectTabs = PROJECTS | SETTINGS | PROMPT_CREATE | IMPORT_PROJECT

text \<open>
  The part of \<open>ProjectsManager\<close> that \<open>CreateManager\<close> touches: the active project, the
  active tab, the optional editor engine (with the calls made to its suggestion generator)
  and the optional runner (with the number of start requests made to it).
\<close>

record ProjectsManager =
  project :: "Project option"
  projectsTab :: ProjectTabs
  editorEngine :: bool
  generateCreatedSuggestions :: "(string \<times> string \<times> ImageMessageContext list) list"
  runner :: bool
  startIfPortAvailable :: nat

text \<open>
  The fields of the class. \<open>cleanupListener\<close> holds either \<open>null\<close> or the one closure
  that removes the listeners of the progress channel: \<open>True\<close> stands for the closure.
  \<open>slowConnectionTimer\<close> holds \<open>null\<close> or a timer handle.
\<close>

record CreateManager =
  createState :: CreateState
  progress :: number
  message :: "string option"
  error :: "string option"
  cleanupListener :: bool
  slowConnectionTimer :: "nat option"

text \<open>The callbacks this file hands to \<open>setTimeout\<close>, one constructor per closure.\<close>

datatype callback =
    SlowMessage string
  | Guard
  | ShowProjectsTab
  | StartRunner

text \<open>A pending timer: its handle, the time it is due, and its callback.\<close>

type_synonym timer = "nat \<times> nat \<times> callback"

datatype request =
    CREATE_NEW_BLANK_PROJECT
  | CREATE_NEW_PROJECT_PROMPT string "ImageMessageContext list"
  | CANCEL_CREATE_NEW_PROJECT_PROMPT

text \<open>
  An \<open>async\<close> method suspended at its \<open>await\<close>: what remains to run, with the locals it
  captured.
\<close>

datatype continuation =
    AwaitCreate string "ImageMessageContext list" bool
  | AwaitCancel

datatype property = Str string string | Flag string bool

record world =
  mgr :: CreateManager
  projectsManager :: ProjectsManager
  timers :: "timer list"
  nextTimer :: nat
  now :: nat
  listeners :: nat
  requests :: "request list"
  inflight :: "continuation list"
  analytics :: "(string \<times> property list) list"

section \<open>The environment\<close>

text \<open>
  \<open>setTimeout\<close> returns a fresh handle and queues the callback \<open>delay\<close> milliseconds from
  now; \<open>clearTimeout\<close> drops the timer with that handle, if it is still pending. Handles
  count up from 1, so a handle is never falsy.
\<close>

definition setTimeout :: "callback \<Rightarrow> nat \<Rightarrow> world \<Rightarrow> nat \<times> world" where
  "setTimeout cb delay w =
    (nextTimer w,
     w\<lparr>timers := timers w @ [(nextTimer w, now w + delay, cb)],
       nextTimer := nextTimer w + 1\<rparr>)"

definition clearTimeout :: "nat \<Rightarrow> world \<Rightarrow> world" where
  "clearTimeout t w = w\<lparr>timers := filter (\<lambda>x. fst x \<noteq> t) (timers w)\<rparr>"

definition sendAnalytics :: "string \<Rightarrow> property list \<Rightarrow> world \<Rightarrow> world" where
  "sendAnalytics event props w = w\<lparr>analytics := analytics w @ [(event, props)]\<rparr>"

definition invokeMainChannel :: "request \<Rightarrow> continuation \<Rightarrow> world \<Rightarrow> world" where
  "invokeMainChannel req k w =
    w\<lparr>requests := requests w @ [req], inflight := inflight w @ [k]\<rparr>"

definition Math_max :: "nat list \<Rightarrow> nat" where
  "Math_max xs = foldr max xs 0"

text \<open>
  Modelled from the spec: \<open>ProjectsManager.createProject\<close> is not in the sources; the spec
  calls it a project-record factory \<open>create project(name, url, path, commands)\<close>.
\<close>

definition ProjectsManager_createProject ::
  "string \<Rightarrow> string \<Rightarrow> string \<Rightarrow> ProjectCommands \<Rightarrow> Project" where
  "ProjectsManager_createProject projectName projectUrl path cmds =
    \<lparr>name = projectName, url = projectUrl, folderPath = path, commands = cmds\<rparr>"

section \<open>CreateManager\<close>

definition startSlowConnectionTimer :: "world \<Rightarrow> world" where
  "startSlowConnectionTimer w =
    (let w1 = (case slowConnectionTimer (mgr w) of
                 Some t \<Rightarrow> clearTimeout t w
               | None \<Rightarrow> w);
         w2 = fold (\<lambda>(time, msg) v. snd (setTimeout (SlowMessage msg) time v))
                SLOW_CREATE_MESSAGES w1;
         (t, w3) = setTimeout Guard (Math_max (map fst SLOW_CREATE_MESSAGES)) w2
     in w3\<lparr>mgr := (mgr w3)\<lparr>slowConnectionTimer := Some t\<rparr>\<rparr>)"

definition clearSlowConnectionTimer :: "world \<Rightarrow> world" where
  "clearSlowConnectionTimer w =
    (case slowConnectionTimer (mgr w) of
       Some t \<Rightarrow> (let w1 = clearTimeout t w
                  in w1\<lparr>mgr := (mgr w1)\<lparr>slowConnectionTimer := None\<rparr>\<rparr>)
     | None \<Rightarrow> w)"

text \<open>The handler registered on \<open>CREATE_NEW_PROJECT_PROMPT_CALLBACK\<close>.\<close>

definition onPromptProgress :: "string \<Rightarrow> number \<Rightarrow> world \<Rightarrow> world" where
  "onPromptProgress msg prog w =
    (let w1 = w\<lparr>mgr := (mgr w)\<lparr>progress := prog\<rparr>\<rparr>
     in w1\<lparr>mgr := (mgr w1)\<lparr>message := Some msg\<rparr>\<rparr>)"

definition listenForPromptProgress :: "world \<Rightarrow> world" where
  "listenForPromptProgress w =
    (let w1 = w\<lparr>listeners := listeners w + 1\<rparr>
     in w1\<lparr>mgr := (mgr w1)\<lparr>cleanupListener := True\<rparr>\<rparr>)"

definition removeAllListeners :: "world \<Rightarrow> world" where
  "removeAllListeners w = w\<lparr>listeners := 0\<rparr>"

definition get_state :: "world \<Rightarrow> CreateState" where
  "get_state w = createState (mgr w)"

definition set_state :: "CreateState \<Rightarrow> world \<Rightarrow> world" where
  "set_state newState w =
    (let w1 = w\<lparr>mgr := (mgr w)\<lparr>createState := newState\<rparr>\<rparr>
     in if newState = CREATE_LOADING then startSlowConnectionTimer w1
        else clearSlowConnectionTimer w1)"

definition createProject :: "string \<Rightarrow> Project" where
  "createProject path =
    (let projectName = ''New Project'';
         projectUrl = ''http://localhost:3000'';
         projectCommands =
           \<lparr>install = ''npm install'', run = ''npm run dev'', build = ''npm run build''\<rparr>
     in ProjectsManager_createProject projectName projectUrl path projectCommands)"

text \<open>
  \<open>sendPrompt\<close> up to its \<open>await\<close>: the analytics event, the state setter, the reset of
  \<open>error\<close>, and the one request, which leaves the rest of the method in flight.
\<close>

definition sendPrompt_call ::
  "string \<Rightarrow> ImageMessageContext list \<Rightarrow> bool \<Rightarrow> world \<Rightarrow> world" where
  "sendPrompt_call prompt images blank w =
    (let w1 = sendAnalytics ''prompt create project''
                [Str ''prompt'' prompt, Flag ''blank'' blank] w;
         w2 = set_state CREATE_LOADING w1;
         w3 = w2\<lparr>mgr := (mgr w2)\<lparr>error := None\<rparr>\<rparr>
     in if blank
        then invokeMainChannel CREATE_NEW_BLANK_PROJECT (AwaitCreate prompt images blank) w3
        else invokeMainChannel (CREATE_NEW_PROJECT_PROMPT prompt images)
               (AwaitCreate prompt images blank) w3)"

text \<open>
  JavaScript truthiness of an optional string (present and not empty), and \<open>a || b\<close> for
  an optional string \<open>a\<close>.
\<close>

definition truthy :: "string option \<Rightarrow> bool" where
  "truthy s = (case s of None \<Rightarrow> False | Some x \<Rightarrow> x \<noteq> [])"

definition or_else :: "string option \<Rightarrow> string \<Rightarrow> string" where
  "or_else a b = (case a of None \<Rightarrow> b | Some x \<Rightarrow> if x \<noteq> [] then x else b)"

text \<open>\<open>result.response?.projectPath\<close>.\<close>

definition response_projectPath :: "CreateProjectResponse \<Rightarrow> string option" where
  "response_projectPath result = map_option projectPath (response result)"

text \<open>
  The success branch, entered with \<open>result.response\<close> present (\<open>body\<close>): the reads
  \<open>result.response.projectPath\<close> and \<open>result.response.content\<close> are reads of \<open>body\<close>.
\<close>

definition sendPrompt_success ::
  "string \<Rightarrow> ImageMessageContext list \<Rightarrow> bool \<Rightarrow> CreateResponseBody \<Rightarrow> world \<Rightarrow> world" where
  "sendPrompt_success prompt images blank body w =
    (let w1 = set_state PROMPT w;
         newProject = createProject (projectPath body);
         w2 = w1\<lparr>projectsManager := (projectsManager w1)\<lparr>project := Some newProject\<rparr>\<rparr>;
         w3 = snd (setTimeout ShowProjectsTab 100 w2);
         w4 = (case content body of
                 None \<Rightarrow> w3
               | Some c \<Rightarrow>
                   if \<not> blank \<and> c \<noteq> [] \<and> editorEngine (projectsManager w3)
                   then w3\<lparr>projectsManager := (projectsManager w3)
                          \<lparr>generateCreatedSuggestions :=
                             generateCreatedSuggestions (projectsManager w3)
                               @ [(prompt, c, images)]\<rparr>\<rparr>
                   else w3);
         w5 = clearSlowConnectionTimer w4;
         w6 = snd (setTimeout StartRunner 1000 w5)
     in sendAnalytics ''prompt create project success'' [] w6)"

definition sendPrompt_failure :: "CreateProjectResponse \<Rightarrow> world \<Rightarrow> world" where
  "sendPrompt_failure result w =
    (let e = or_else (CreateProjectResponse.error result) ''Failed to create project'';
         w1 = w\<lparr>mgr := (mgr w)\<lparr>error := Some e\<rparr>\<rparr>;
         w2 = set_state ERROR w1
     in sendAnalytics ''prompt create project error'' [Str ''error'' e] w2)"

text \<open>
  \<open>sendPrompt\<close> from its \<open>await\<close> on. A rejected request makes the \<open>await\<close> throw: nothing
  after it runs and the method's own promise is rejected. Reading \<open>projectPath\<close> off an
  absent \<open>response\<close> would be a TypeError; the condition of the \<open>if\<close> excludes it.
\<close>

definition sendPrompt_resume ::
  "string \<Rightarrow> ImageMessageContext list \<Rightarrow> bool \<Rightarrow> CreateProjectResponse settled
     \<Rightarrow> world \<Rightarrow> thrown + world" where
  "sendPrompt_resume prompt images blank outcome w =
    (case outcome of
       Rejected reason \<Rightarrow> Inl (Thrown reason)
     | Fulfilled result \<Rightarrow>
         if success result \<and> truthy (response_projectPath result)
         then (case response result of
                 None \<Rightarrow> Inl (Thrown ''TypeError'')
               | Some body \<Rightarrow> Inr (sendPrompt_success prompt images blank body w))
         else Inr (sendPrompt_failure result w))"

definition cancel_call :: "world \<Rightarrow> world" where
  "cancel_call w = invokeMainChannel CANCEL_CREATE_NEW_PROJECT_PROMPT AwaitCancel w"

definition cancel_resume :: "'r settled \<Rightarrow> world \<Rightarrow> thrown + world" where
  "cancel_resume outcome w =
    (case outcome of
       Rejected reason \<Rightarrow> Inl (Thrown reason)
     | Fulfilled _ \<Rightarrow> Inr (set_state PROMPT w))"

definition cleanup :: "world \<Rightarrow> world" where
  "cleanup w =
    (let w1 = (if cleanupListener (mgr w)
               then (let v = removeAllListeners w
                     in v\<lparr>mgr := (mgr v)\<lparr>cleanupListener := False\<rparr>\<rparr>)
               else w)
     in clearSlowConnectionTimer w1)"

text \<open>The constructor: the field initialisers, then \<open>listenForPromptProgress\<close>.\<close>

definition new_CreateManager :: "ProjectsManager \<Rightarrow> world" where
  "new_CreateManager pm =
    listenForPromptProgress
      \<lparr>mgr = \<lparr>createState = PROMPT, progress = Num 0, message = None, error = None,
               cleanupListener = False, slowConnectionTimer = None\<rparr>,
       projectsManager = pm,
       timers = [], nextTimer = 1, now = 0, listeners = 0,
       requests = [], inflight = [], analytics = []\<rparr>"

section \<open>The event loop\<close>

text \<open>What a timer's callback does when it fires.\<close>

fun run_callback :: "callback \<Rightarrow> world \<Rightarrow> world" where
  "run_callback (SlowMessage msg) w =
    (if get_state w = CREATE_LOADING
     then (let w1 = w\<lparr>mgr := (mgr w)\<lparr>message := Some msg\<rparr>\<rparr>
           in w1\<lparr>mgr := (mgr w1)\<lparr>progress := js_add (progress (mgr w1)) (Num 10)\<rparr>\<rparr>)
     else w)"
| "run_callback Guard w = w"
| "run_callback ShowProjectsTab w =
    w\<lparr>projectsManager := (projectsManager w)\<lparr>projectsTab := PROJECTS\<rparr>\<rparr>"
| "run_callback StartRunner w =
    (if runner (projectsManager w)
     then w\<lparr>projectsManager := (projectsManager w)
            \<lparr>startIfPortAvailable := startIfPortAvailable (projectsManager w) + 1\<rparr>\<rparr>
     else w)"

text \<open>
  Firing the pending timer with handle \<open>t\<close>, once it is due: it leaves the queue and its
  callback runs. A handle that is not pending, or not yet due, fires nothing.
\<close>

definition fire :: "nat \<Rightarrow> world \<Rightarrow> world" where
  "fire t w =
    (case find (\<lambda>x. fst x = t) (timers w) of
       None \<Rightarrow> w
     | Some (_, due, cb) \<Rightarrow>
         if due \<le> now w
         then run_callback cb (w\<lparr>timers := filter (\<lambda>x. fst x \<noteq> t) (timers w)\<rparr>)
         else w)"

text \<open>
  A notification on the progress channel runs every handler registered on it; each
  registration by \<open>listenForPromptProgress\<close> is one more copy of the same handler.
\<close>

definition notify :: "string \<Rightarrow> number \<Rightarrow> world \<Rightarrow> world" where
  "notify msg prog w = ((onPromptProgress msg prog) ^^ listeners w) w"

text \<open>
  The backend settles the \<open>i\<close>-th request in flight: its continuation leaves the list and
  runs. When the continuation throws, the world is as the \<open>await\<close> found it.
\<close>

definition settle :: "nat \<Rightarrow> CreateProjectResponse settled \<Rightarrow> world \<Rightarrow> world" where
  "settle i outcome w =
    (if i < length (inflight w)
     then (let k = inflight w ! i;
               w1 = w\<lparr>inflight := take i (inflight w) @ drop (Suc i) (inflight w)\<rparr>
           in case (case k of
                      AwaitCreate prompt images blank \<Rightarrow>
                        sendPrompt_resume prompt images blank outcome w1
                    | AwaitCancel \<Rightarrow> cancel_resume outcome w1) of
                Inl _ \<Rightarrow> w1
              | Inr w2 \<Rightarrow> w2)
     else w)"

datatype event =
    SendPrompt string "ImageMessageContext list" bool
  | Cancel
  | Cleanup
  | ListenForPromptProgress
  | Notify string number
  | Settle nat "CreateProjectResponse settled"
  | Advance nat
  | Fire nat

fun step :: "event \<Rightarrow> world \<Rightarrow> world" where
  "step (SendPrompt prompt images blank) w = sendPrompt_call prompt images blank w"
| "step Cancel w = cancel_call w"
| "step Cleanup w = cleanup w"
| "step ListenForPromptProgress w = listenForPromptProgress w"
| "step (Notify msg prog) w = notify msg prog w"
| "step (Settle i outcome) w = settle i outcome w"
| "step (Advance dt) w = w\<lparr>now := now w + dt\<rparr>"
| "step (Fire t) w = fire t w"

text \<open>The world after a sequence of events, from a freshly constructed manager.\<close>

definition exec :: "event list \<Rightarrow> world \<Rightarrow> world" where
  "exec evs w = fold step evs w"

definition reachable :: "ProjectsManager \<Rightarrow> event list \<Rightarrow> world" where
  "reachable pm evs = exec evs (new_CreateManager pm)"

section \<open>Concrete inputs\<close>

text \<open>
  A projects manager with no active project, on the prompt tab, and the responses the
  examples below run.
\<close>

definition pm0 :: ProjectsManager where
  "pm0 = \<lparr>project = None, projectsTab = PROMPT_CREATE, editorEngine = True,
           generateCreatedSuggestions = [], runner = True, startIfPortAvailable = 0\<rparr>"

definition ok_response :: CreateProjectResponse where
  "ok_response =
    \<lparr>success = True, response = Some \<lparr>projectPath = ''/p'', content = None\<rparr>,
     error = None\<rparr>"

definition disk_full :: CreateProjectResponse where
  "disk_full = \<lparr>success = False, response = None, error = Some ''disk full''\<rparr>"

definition empty_error :: CreateProjectResponse where
  "empty_error = \<lparr>success = False, response = None, error = Some []\<rparr>"

definition no_error :: CreateProjectResponse where
  "no_error = \<lparr>success = False, response = None, error = None\<rparr>"

definition ack :: CreateProjectResponse where
  "ack = \<lparr>success = True, response = None, error = None\<rparr>"

text \<open>
  An attempt cancelled after two seconds and started again three seconds later, watched
  until the first attempt's 15 second timer is due.
\<close>

definition retry_trace :: "event list" where
  "retry_trace =
    [SendPrompt ''x'' [] False, Advance 2000, Cancel, Settle 1 (Fulfilled ack),
     Advance 3000, SendPrompt ''x'' [] False, Advance 10000]"

text \<open>
  A progress notification carrying \<open>2^53 - 1\<close> during the attempt, watched until the
  15 second timer is due.
\<close>

definition large_progress_trace :: "event list" where
  "large_progress_trace =
    [SendPrompt ''x'' [] False, Notify ''m'' (Num 9007199254740991), Advance 15000]"

section \<open>Invariants of the reachable worlds\<close>

text \<open>
  The state is never \<open>IMPORT\<close>; \<open>error\<close> is null while loading and non-null in
  \<open>ERROR\<close>.
\<close>

definition error_inv :: "world \<Rightarrow> bool" where
  "error_inv w \<longleftrightarrow>
     get_state w \<noteq> IMPORT
     \<and> (get_state w = CREATE_LOADING \<longrightarrow> error (mgr w) = None)
     \<and> (get_state w = ERROR \<longrightarrow> error (mgr w) \<noteq> None)"

text \<open>
  Every pending guard timer is the one whose handle the manager holds, and the manager
  holds the detach closure whenever a handler is registered.
\<close>

definition handle_inv :: "world \<Rightarrow> bool" where
  "handle_inv w \<longleftrightarrow>
     (\<forall>x \<in> set (timers w). snd (snd x) = Guard \<longrightarrow>
        slowConnectionTimer (mgr w) = Some (fst x))
     \<and> (0 < listeners w \<longrightarrow> cleanupListener (mgr w))"

text \<open>
  Handles are not reused: every handle in use is below the next one to be given out, and
  the handle the manager holds belongs to no pending timer but the guard.
\<close>

definition fresh_inv :: "world \<Rightarrow> bool" where
  "fresh_inv w \<longleftrightarrow>
     (\<forall>x \<in> set (timers w). fst x < nextTimer w)
     \<and> (\<forall>t. slowConnectionTimer (mgr w) = Some t \<longrightarrow>
            t < nextTimer w
            \<and> (\<forall>x \<in> set (timers w). fst x = t \<longrightarrow> snd (snd x) = Guard))"

section \<open>What each operation does to the fields\<close>

text \<open>
  The schedule in the spec's words: five canned messages 15, 30, 45, 60 and 75 seconds
  after \<open>t0\<close>, and the guard at the last of these times, with consecutive handles from
  \<open>n\<close>. \<open>uncleared h ts\<close> is what \<open>clearTimeout\<close> of the handle \<open>h\<close>, when there is one,
  leaves of the pending timers \<open>ts\<close>.
\<close>

definition slow_schedule :: "nat \<Rightarrow> nat \<Rightarrow> timer list" where
  "slow_schedule n t0 =
    [(n, t0 + 15000, SlowMessage ''Finalizing layout...''),
     (n + 1, t0 + 30000, SlowMessage ''Drafting copy...''),
     (n + 2, t0 + 45000, SlowMessage ''Finalizing design...''),
     (n + 3, t0 + 60000, SlowMessage ''Completing setup...''),
     (n + 4, t0 + 75000, SlowMessage ''Starting project...''),
     (n + 5, t0 + 75000, Guard)]"

definition uncleared :: "nat option \<Rightarrow> timer list \<Rightarrow> timer list" where
  "uncleared h ts = (case h of None \<Rightarrow> ts | Some t \<Rightarrow> filter (\<lambda>x. fst x \<noteq> t) ts)"

lemma startSlowConnectionTimer_eq:
  "startSlowConnectionTimer w =
     w\<lparr>timers := uncleared (slowConnectionTimer (mgr w)) (timers w)
                   @ slow_schedule (nextTimer w) (now w),
       nextTimer := nextTimer w + 6,
       mgr := (mgr w)\<lparr>slowConnectionTimer := Some (nextTimer w + 5)\<rparr>\<rparr>"
  by (cases "slowConnectionTimer (mgr w)")
     (simp_all add: startSlowConnectionTimer_def SLOW_CREATE_MESSAGES_def setTimeout_def
        clearTimeout_def Math_max_def slow_schedule_def uncleared_def)

lemma clearSlowConnectionTimer_eq:
  "clearSlowConnectionTimer w =
     w\<lparr>timers := uncleared (slowConnectionTimer (mgr w)) (timers w),
       mgr := (mgr w)\<lparr>slowConnectionTimer := None\<rparr>\<rparr>"
  by (cases "slowConnectionTimer (mgr w)")
     (simp_all add: clearSlowConnectionTimer_def clearTimeout_def uncleared_def)

lemma set_state_eq:
  "set_state s w =
     (if s = CREATE_LOADING
      then w\<lparr>timers := uncleared (slowConnectionTimer (mgr w)) (timers w)
                     @ slow_schedule (nextTimer w) (now w),
             nextTimer := nextTimer w + 6,
             mgr := (mgr w)\<lparr>createState := s, slowConnectionTimer := Some (nextTimer w + 5)\<rparr>\<rparr>
      else w\<lparr>timers := uncleared (slowConnectionTimer (mgr w)) (timers w),
             mgr := (mgr w)\<lparr>createState := s, slowConnectionTimer := None\<rparr>\<rparr>)"
  by (simp add: set_state_def startSlowConnectionTimer_eq clearSlowConnectionTimer_eq)

lemma sendPrompt_success_mgr:
  "mgr (sendPrompt_success prompt images blank body w) =
     (mgr w)\<lparr>createState := PROMPT, slowConnectionTimer := None\<rparr>"
  by (simp add: sendPrompt_success_def set_state_eq clearSlowConnectionTimer_eq
        setTimeout_def sendAnalytics_def Let_def split: option.split)

lemma sendPrompt_success_project:
  "project (projectsManager (sendPrompt_success prompt images blank body w)) =
     Some (createProject (projectPath body))"
  by (simp add: sendPrompt_success_def set_state_eq clearSlowConnectionTimer_eq
        setTimeout_def sendAnalytics_def Let_def split: option.split)

lemma sendPrompt_failure_mgr:
  "mgr (sendPrompt_failure result w) =
     (mgr w)\<lparr>createState := ERROR, slowConnectionTimer := None,
             error := Some (or_else (CreateProjectResponse.error result)
                              ''Failed to create project'')\<rparr>"
  by (simp add: sendPrompt_failure_def set_state_eq sendAnalytics_def Let_def)

lemma sendPrompt_call_mgr:
  "mgr (sendPrompt_call prompt images blank w) =
     (mgr w)\<lparr>createState := CREATE_LOADING, error := None,
             slowConnectionTimer := Some (nextTimer w + 5)\<rparr>"
  by (simp add: sendPrompt_call_def set_state_eq sendAnalytics_def invokeMainChannel_def
        Let_def)

lemma truthy_projectPath:
  "truthy (response_projectPath result) \<longleftrightarrow>
     (\<exists>body. response result = Some body \<and> projectPath body \<noteq> [])"
  by (cases "response result") (simp_all add: truthy_def response_projectPath_def)

section \<open>Success installs the project (C1)\<close>

text \<open>
  C1. For every call \<open>sendPrompt(p, imgs, blank)\<close> whose request is fulfilled with a response
  that has \<open>success\<close> true and a non-empty project path, the rest of the method, run in
  whatever world the response finds (so after any interleaving of timers, notifications
  and other calls), completes without throwing, leaves the state \<open>PROMPT\<close>, and makes the
  active project of the projects manager the record with that path, name
  \<open>New Project\<close>, url \<open>http://localhost:3000\<close> and commands
  \<open>npm install\<close>, \<open>npm run dev\<close>, \<open>npm run build\<close>.
\<close>

theorem sendPrompt_success_installs_project:
  assumes "success result" and "response result = Some body"
    and "projectPath body = path" and "path \<noteq> []"
  shows "\<exists>w'. sendPrompt_resume prompt images blank (Fulfilled result) w = Inr w'
           \<and> get_state w' = PROMPT
           \<and> project (projectsManager w') =
               Some \<lparr>name = ''New Project'', url = ''http://localhost:3000'',
                     folderPath = path,
                     commands = \<lparr>install = ''npm install'', run = ''npm run dev'',
                                  build = ''npm run build''\<rparr>\<rparr>"
proof -
  have t: "truthy (response_projectPath result)"
    using assms by (simp add: truthy_projectPath)
  have r: "sendPrompt_resume prompt images blank (Fulfilled result) w =
             Inr (sendPrompt_success prompt images blank body w)"
    using assms(1,2) t by (simp add: sendPrompt_resume_def)
  have s: "get_state (sendPrompt_success prompt images blank body w) = PROMPT"
    by (simp add: get_state_def sendPrompt_success_mgr)
  have p: "project (projectsManager (sendPrompt_success prompt images blank body w)) =
             Some (createProject path)"
    using assms(3) by (simp add: sendPrompt_success_project)
  show ?thesis
    using r s p by (simp add: createProject_def ProjectsManager_createProject_def)
qed

theorem sendPrompt_success_installs_project_witness:
  "success ok_response \<and> response ok_response = Some \<lparr>projectPath = ''/p'', content = None\<rparr>
   \<and> (\<exists>w'. sendPrompt_resume ''x'' [] False (Fulfilled ok_response)
               (sendPrompt_call ''x'' [] False (new_CreateManager pm0)) = Inr w'
           \<and> get_state w' = PROMPT
           \<and> project (projectsManager w') =
               Some \<lparr>name = ''New Project'', url = ''http://localhost:3000'',
                     folderPath = ''/p'',
                     commands = \<lparr>install = ''npm install'', run = ''npm run dev'',
                                  build = ''npm run build''\<rparr>\<rparr>)"
  using sendPrompt_success_installs_project
    [of ok_response "\<lparr>projectPath = ''/p'', content = None\<rparr>" "''/p''" "''x''" "[]" False
        "sendPrompt_call ''x'' [] False (new_CreateManager pm0)"]
  by (simp add: ok_response_def)

lemma sendPrompt_resume_failure:
  assumes "\<not> (success result \<and> truthy (response_projectPath result))"
  shows "sendPrompt_resume prompt images blank (Fulfilled result) w =
           Inr (sendPrompt_failure result w)"
  unfolding sendPrompt_resume_def using assms by auto

lemma sendPrompt_resume_success:
  assumes "success result" and "response result = Some body" and "projectPath body \<noteq> []"
  shows "sendPrompt_resume prompt images blank (Fulfilled result) w =
           Inr (sendPrompt_success prompt images blank body w)"
  using assms by (simp add: sendPrompt_resume_def truthy_projectPath)

section \<open>Failure records the error (C2, C10)\<close>

text \<open>
  C2, as the code has it. A fulfilled response is treated as a failure exactly when its
  \<open>success\<close> flag is false or its project path is missing or empty. On failure the
  continuation completes with state \<open>ERROR\<close> and \<open>error\<close> equal to the response's error
  string when that string is present and not empty, and to \<open>Failed to create project\<close>
  when it is absent or empty. Otherwise the state is \<open>PROMPT\<close> and \<open>error\<close> is left as
  it was.
\<close>

theorem sendPrompt_failure_exactly_when:
  "\<exists>w'. sendPrompt_resume prompt images blank (Fulfilled result) w = Inr w'
     \<and> (if \<not> success result
            \<or> (case response result of None \<Rightarrow> True | Some body \<Rightarrow> projectPath body = [])
         then get_state w' = ERROR
              \<and> error (mgr w') =
                  Some (case CreateProjectResponse.error result of
                          None \<Rightarrow> ''Failed to create project''
                        | Some e \<Rightarrow> if e = [] then ''Failed to create project'' else e)
         else get_state w' = PROMPT \<and> error (mgr w') = error (mgr w))"
proof (cases "success result \<and> truthy (response_projectPath result)")
  case True
  then obtain body where b: "response result = Some body" "projectPath body \<noteq> []"
    by (auto simp: truthy_projectPath)
  with True show ?thesis
    by (simp add: sendPrompt_resume_success [OF _ b] get_state_def sendPrompt_success_mgr)
next
  case False
  then have c: "\<not> success result
      \<or> (case response result of None \<Rightarrow> True | Some body \<Rightarrow> projectPath body = [])"
    by (auto simp: truthy_projectPath split: option.split)
  show ?thesis
    using c
    by (simp add: sendPrompt_resume_failure [OF False] get_state_def sendPrompt_failure_mgr
          or_else_def split: option.split)
qed

theorem sendPrompt_failure_exactly_when_witness:
  "\<not> success disk_full
   \<and> (\<exists>w'. sendPrompt_resume ''x'' [] False (Fulfilled disk_full)
              (sendPrompt_call ''x'' [] False (new_CreateManager pm0)) = Inr w'
          \<and> get_state w' = ERROR \<and> error (mgr w') = Some ''disk full'')
   \<and> CreateProjectResponse.error no_error = None
   \<and> (\<exists>w'. sendPrompt_resume ''x'' [] False (Fulfilled no_error)
              (sendPrompt_call ''x'' [] False (new_CreateManager pm0)) = Inr w'
          \<and> get_state w' = ERROR \<and> error (mgr w') = Some ''Failed to create project'')
   \<and> (\<exists>w'. sendPrompt_resume ''x'' [] False (Fulfilled ok_response)
              (sendPrompt_call ''x'' [] False (new_CreateManager pm0)) = Inr w'
          \<and> get_state w' = PROMPT \<and> error (mgr w') = None)"
  using sendPrompt_failure_exactly_when
    [of "''x''" "[]" False disk_full "sendPrompt_call ''x'' [] False (new_CreateManager pm0)"]
    sendPrompt_failure_exactly_when
    [of "''x''" "[]" False no_error "sendPrompt_call ''x'' [] False (new_CreateManager pm0)"]
    sendPrompt_failure_exactly_when
    [of "''x''" "[]" False ok_response "sendPrompt_call ''x'' [] False (new_CreateManager pm0)"]
  by (simp add: disk_full_def no_error_def ok_response_def sendPrompt_call_mgr)

text \<open>
  The claim as stated has \<open>error\<close> equal to the response's error string whenever the
  response provides one. A failing response whose error string is empty provides one, and
  the recorded error is the generic message instead.
\<close>

theorem sendPrompt_empty_error_counterexample:
  "CreateProjectResponse.error empty_error = Some []
   \<and> get_state (reachable pm0 [SendPrompt ''x'' [] False, Settle 0 (Fulfilled empty_error)])
       = ERROR
   \<and> error (mgr (reachable pm0 [SendPrompt ''x'' [] False, Settle 0 (Fulfilled empty_error)]))
       = Some ''Failed to create project''"
  by (simp add: reachable_def exec_def settle_def sendPrompt_call_def sendPrompt_resume_def
        sendPrompt_failure_def set_state_eq sendAnalytics_def invokeMainChannel_def
        new_CreateManager_def listenForPromptProgress_def get_state_def or_else_def
        empty_error_def truthy_def response_projectPath_def uncleared_def Let_def)

text \<open>
  C10. For every failing \<open>sendPrompt\<close> call whose response carries the empty string as its
  error field, the recorded error is \<open>Failed to create project\<close>, not the empty string:
  \<open>||\<close> falls back on any falsy value.
\<close>

theorem empty_error_string_falls_back:
  assumes "\<not> (success result \<and> truthy (response_projectPath result))"
    and "CreateProjectResponse.error result = Some []"
  shows "\<exists>w'. sendPrompt_resume prompt images blank (Fulfilled result) w = Inr w'
           \<and> get_state w' = ERROR
           \<and> error (mgr w') = Some ''Failed to create project''
           \<and> error (mgr w') \<noteq> Some []"
  using assms(2)
  by (simp add: sendPrompt_resume_failure [OF assms(1)] get_state_def sendPrompt_failure_mgr
        or_else_def)

theorem empty_error_string_falls_back_witness:
  "\<not> (success empty_error \<and> truthy (response_projectPath empty_error))
   \<and> CreateProjectResponse.error empty_error = Some []
   \<and> (\<exists>w'. sendPrompt_resume ''x'' [] True (Fulfilled empty_error)
              (sendPrompt_call ''x'' [] True (new_CreateManager pm0)) = Inr w'
          \<and> error (mgr w') = Some ''Failed to create project'')"
  using empty_error_string_falls_back
    [of empty_error "''x''" "[]" True "sendPrompt_call ''x'' [] True (new_CreateManager pm0)"]
  by (auto simp: empty_error_def truthy_def response_projectPath_def)

section \<open>What the start of an attempt writes (C8)\<close>

text \<open>
  C8. The part of \<open>sendPrompt\<close> that runs before the request is issued writes the state
  (through its setter, which also replaces the timer handle) and \<open>error\<close>, and nothing
  else of the manager: \<open>progress\<close> and \<open>message\<close> keep the values that earlier attempts,
  slow-message timers or progress notifications left in them. The projects manager and
  the subscription are untouched, and exactly one request is issued.
\<close>

theorem sendPrompt_call_writes_state_and_error:
  "mgr (sendPrompt_call prompt images blank w) =
     (mgr w)\<lparr>createState := CREATE_LOADING, error := None,
             slowConnectionTimer := Some (nextTimer w + 5)\<rparr>
   \<and> progress (mgr (sendPrompt_call prompt images blank w)) = progress (mgr w)
   \<and> message (mgr (sendPrompt_call prompt images blank w)) = message (mgr w)
   \<and> projectsManager (sendPrompt_call prompt images blank w) = projectsManager w
   \<and> listeners (sendPrompt_call prompt images blank w) = listeners w
   \<and> requests (sendPrompt_call prompt images blank w) =
       requests w @ [if blank then CREATE_NEW_BLANK_PROJECT
                     else CREATE_NEW_PROJECT_PROMPT prompt images]"
  by (simp add: sendPrompt_call_def set_state_eq sendAnalytics_def invokeMainChannel_def
        Let_def)

theorem sendPrompt_call_writes_state_and_error_witness:
  "progress (mgr (reachable pm0 [Notify ''m'' (Num 42), SendPrompt ''x'' [] False])) = Num 42
   \<and> message (mgr (reachable pm0 [Notify ''m'' (Num 42), SendPrompt ''x'' [] False])) = Some ''m''
   \<and> get_state (reachable pm0 [Notify ''m'' (Num 42), SendPrompt ''x'' [] False]) = CREATE_LOADING"
  using sendPrompt_call_writes_state_and_error
    [of "''x''" "[]" False "reachable pm0 [Notify ''m'' (Num 42)]"]
  by (simp add: reachable_def exec_def notify_def onPromptProgress_def get_state_def
        new_CreateManager_def listenForPromptProgress_def Let_def)

section \<open>What cancel writes (C9)\<close>

lemma cancel_call_mgr: "mgr (cancel_call w) = mgr w"
  by (simp add: cancel_call_def invokeMainChannel_def)

lemma cancel_resume_Fulfilled: "cancel_resume (Fulfilled r) w = Inr (set_state PROMPT w)"
  by (simp add: cancel_resume_def)

lemma cancel_resume_Rejected: "cancel_resume (Rejected reason) w = Inl (Thrown reason)"
  by (simp add: cancel_resume_def)

lemma set_state_PROMPT_mgr:
  "mgr (set_state PROMPT w) = (mgr w)\<lparr>createState := PROMPT, slowConnectionTimer := None\<rparr>"
  by (simp add: set_state_eq)

text \<open>
  C9. A call to \<open>cancel()\<close> writes only the state and the timer handle of the manager:
  issuing the request writes nothing, and whenever the continuation completes, the manager
  is the old one with \<open>createState\<close> set to \<open>PROMPT\<close> and the handle cleared, so \<open>error\<close>,
  \<open>message\<close> and \<open>progress\<close> are as before. In particular, from \<open>ERROR\<close> with a non-null
  \<open>error\<close> the call ends in \<open>PROMPT\<close> with \<open>error\<close> still non-null.
\<close>

theorem cancel_writes_only_state:
  "mgr (cancel_call w) = mgr w
   \<and> (\<forall>w'. cancel_resume outcome w = Inr w' \<longrightarrow>
         mgr w' = (mgr w)\<lparr>createState := PROMPT, slowConnectionTimer := None\<rparr>
         \<and> error (mgr w') = error (mgr w)
         \<and> message (mgr w') = message (mgr w)
         \<and> progress (mgr w') = progress (mgr w)
         \<and> projectsManager w' = projectsManager w)
   \<and> (\<exists>w'. cancel_resume (Fulfilled r) w = Inr w'
          \<and> get_state w' = PROMPT \<and> error (mgr w') = error (mgr w))"
  by (cases outcome)
     (simp_all add: cancel_call_mgr cancel_resume_Fulfilled cancel_resume_Rejected
        get_state_def set_state_eq)

theorem cancel_writes_only_state_witness:
  "get_state (reachable pm0 [SendPrompt ''x'' [] False, Settle 0 (Fulfilled disk_full)]) = ERROR
   \<and> error (mgr (reachable pm0 [SendPrompt ''x'' [] False, Settle 0 (Fulfilled disk_full)]))
       = Some ''disk full''
   \<and> (\<exists>w'. cancel_resume (Fulfilled True)
              (cancel_call
                (reachable pm0 [SendPrompt ''x'' [] False, Settle 0 (Fulfilled disk_full)]))
              = Inr w'
          \<and> get_state w' = PROMPT \<and> error (mgr w') = Some ''disk full'')"
  using cancel_writes_only_state
    [where w = "cancel_call
                  (reachable pm0 [SendPrompt ''x'' [] False, Settle 0 (Fulfilled disk_full)])"
       and outcome = "Fulfilled True" and r = True]
  by (simp add: reachable_def exec_def settle_def sendPrompt_call_def sendPrompt_resume_def
        sendPrompt_failure_def set_state_eq sendAnalytics_def invokeMainChannel_def
        new_CreateManager_def listenForPromptProgress_def get_state_def or_else_def
        disk_full_def truthy_def response_projectPath_def uncleared_def cancel_call_def
        Let_def)

section \<open>Cancel and the backend's answer (C5)\<close>

text \<open>
  C5, as the code has it. For every call to \<open>cancel()\<close> (made in \<open>CREATE_LOADING\<close> or in
  any other state) whose request is fulfilled, whatever value the backend answers with,
  the rest of the method completes without throwing and leaves the state \<open>PROMPT\<close>. The
  method has no handler around its \<open>await\<close>: when the request is rejected, the rejection
  is what the caller gets.
\<close>

theorem cancel_fulfilled_returns_to_PROMPT:
  "(\<exists>w'. cancel_resume (Fulfilled r) w = Inr w' \<and> get_state w' = PROMPT)
   \<and> cancel_resume (Rejected reason) w = Inl (Thrown reason)"
  by (simp add: cancel_resume_Fulfilled cancel_resume_Rejected get_state_def
        set_state_PROMPT_mgr)

theorem cancel_fulfilled_returns_to_PROMPT_witness:
  "get_state (reachable pm0 [SendPrompt ''x'' [] False, Cancel]) = CREATE_LOADING
   \<and> (\<exists>w'. cancel_resume (Fulfilled False)
              (reachable pm0 [SendPrompt ''x'' [] False, Cancel]) = Inr w'
          \<and> get_state w' = PROMPT)"
  using cancel_fulfilled_returns_to_PROMPT
    [where w = "reachable pm0 [SendPrompt ''x'' [] False, Cancel]" and r = False
       and reason = "[]"]
  by (auto simp: reachable_def exec_def sendPrompt_call_def set_state_eq sendAnalytics_def
        invokeMainChannel_def new_CreateManager_def listenForPromptProgress_def
        get_state_def cancel_call_def Let_def)

text \<open>
  The claim as stated covers a backend that fails. With the cancellation request rejected
  while the state is \<open>CREATE_LOADING\<close>, the call throws, and the state is still
  \<open>CREATE_LOADING\<close> afterwards.
\<close>

theorem cancel_rejected_counterexample:
  "get_state (reachable pm0 [SendPrompt ''x'' [] False, Cancel]) = CREATE_LOADING
   \<and> inflight (reachable pm0 [SendPrompt ''x'' [] False, Cancel])
       = [AwaitCreate ''x'' [] False, AwaitCancel]
   \<and> cancel_resume (Rejected ''no handler'' :: CreateProjectResponse settled)
       (reachable pm0 [SendPrompt ''x'' [] False, Cancel]) = Inl (Thrown ''no handler'')
   \<and> get_state (reachable pm0 [SendPrompt ''x'' [] False, Cancel,
                                Settle 1 (Rejected ''no handler'')]) = CREATE_LOADING"
  by (simp add: reachable_def exec_def settle_def sendPrompt_call_def set_state_eq
        sendAnalytics_def invokeMainChannel_def new_CreateManager_def
        listenForPromptProgress_def get_state_def cancel_call_def cancel_resume_def Let_def)

section \<open>Progress notifications (C7)\<close>

lemma onPromptProgress_mgr:
  "mgr (onPromptProgress msg prog w) = (mgr w)\<lparr>progress := prog, message := Some msg\<rparr>"
  by (simp add: onPromptProgress_def Let_def)

lemma onPromptProgress_funpow_mgr:
  "mgr ((onPromptProgress msg prog ^^ Suc n) w) =
     (mgr w)\<lparr>progress := prog, message := Some msg\<rparr>"
  by (induction n) (simp_all add: onPromptProgress_mgr)

lemma notify_mgr:
  "mgr (notify msg prog w) =
     (if listeners w = 0 then mgr w else (mgr w)\<lparr>progress := prog, message := Some msg\<rparr>)"
proof (cases "listeners w")
  case 0
  then show ?thesis by (simp add: notify_def)
next
  case (Suc n)
  then show ?thesis
    using onPromptProgress_funpow_mgr [where n = n and w = w and msg = msg and prog = prog]
    by (simp add: notify_def)
qed

text \<open>
  C7. The handler of the progress channel sets \<open>message\<close> to the notification's message
  and \<open>progress\<close> to its progress in every world, whatever the state and whatever the
  fields held, and changes no other field; a notification delivered while the manager is
  subscribed therefore leaves the manager with exactly these two fields overwritten.
\<close>

theorem progress_notification_overwrites:
  "message (mgr (onPromptProgress msg prog w)) = Some msg
   \<and> progress (mgr (onPromptProgress msg prog w)) = prog
   \<and> (0 < listeners w \<longrightarrow>
        mgr (notify msg prog w) = (mgr w)\<lparr>progress := prog, message := Some msg\<rparr>
        \<and> message (mgr (notify msg prog w)) = Some msg
        \<and> progress (mgr (notify msg prog w)) = prog)"
  by (simp add: onPromptProgress_mgr notify_mgr)

theorem progress_notification_overwrites_witness:
  "0 < listeners (reachable pm0 [SendPrompt ''x'' [] False, Settle 0 (Fulfilled disk_full)])
   \<and> get_state (reachable pm0 [SendPrompt ''x'' [] False, Settle 0 (Fulfilled disk_full)])
       = ERROR
   \<and> message (mgr (notify ''m'' (Num 42)
        (reachable pm0 [SendPrompt ''x'' [] False, Settle 0 (Fulfilled disk_full)])))
       = Some ''m''
   \<and> progress (mgr (notify ''m'' (Num 42)
        (reachable pm0 [SendPrompt ''x'' [] False, Settle 0 (Fulfilled disk_full)]))) = Num 42"
  using progress_notification_overwrites
    [of "''m''" "Num 42"
        "reachable pm0 [SendPrompt ''x'' [] False, Settle 0 (Fulfilled disk_full)]"]
  by (simp add: reachable_def exec_def settle_def sendPrompt_call_def sendPrompt_resume_def
        sendPrompt_failure_def set_state_eq sendAnalytics_def invokeMainChannel_def
        new_CreateManager_def listenForPromptProgress_def get_state_def or_else_def
        disk_full_def truthy_def response_projectPath_def uncleared_def Let_def)

section \<open>The operations in closed form, and the invariants\<close>

lemma notify_eq:
  "notify msg prog w =
     (if listeners w = 0 then w
      else w\<lparr>mgr := (mgr w)\<lparr>progress := prog, message := Some msg\<rparr>\<rparr>)"
proof -
  have "(onPromptProgress msg prog ^^ Suc n) v =
          v\<lparr>mgr := (mgr v)\<lparr>progress := prog, message := Some msg\<rparr>\<rparr>" for n v
    by (induction n) (simp_all add: onPromptProgress_def Let_def)
  then show ?thesis
    by (cases "listeners w") (simp_all add: notify_def)
qed

lemma cleanup_eq:
  "cleanup w =
     w\<lparr>listeners := (if cleanupListener (mgr w) then 0 else listeners w),
       timers := uncleared (slowConnectionTimer (mgr w)) (timers w),
       mgr := (mgr w)\<lparr>cleanupListener := False, slowConnectionTimer := None\<rparr>\<rparr>"
  by (simp add: cleanup_def removeAllListeners_def clearSlowConnectionTimer_eq Let_def)

lemma sendPrompt_success_eq:
  "sendPrompt_success prompt images blank body w =
     w\<lparr>timers := uncleared (slowConnectionTimer (mgr w)) (timers w)
                   @ [(nextTimer w, now w + 100, ShowProjectsTab),
                      (nextTimer w + 1, now w + 1000, StartRunner)],
       nextTimer := nextTimer w + 2,
       mgr := (mgr w)\<lparr>createState := PROMPT, slowConnectionTimer := None\<rparr>,
       projectsManager :=
         (case content body of
            None \<Rightarrow> (projectsManager w)\<lparr>project := Some (createProject (projectPath body))\<rparr>
          | Some c \<Rightarrow>
              if \<not> blank \<and> c \<noteq> [] \<and> editorEngine (projectsManager w)
              then (projectsManager w)
                     \<lparr>project := Some (createProject (projectPath body)),
                      generateCreatedSuggestions :=
                        generateCreatedSuggestions (projectsManager w) @ [(prompt, c, images)]\<rparr>
              else (projectsManager w)\<lparr>project := Some (createProject (projectPath body))\<rparr>),
       analytics := analytics w @ [(''prompt create project success'', [])]\<rparr>"
  by (simp add: sendPrompt_success_def set_state_eq clearSlowConnectionTimer_eq
        setTimeout_def sendAnalytics_def uncleared_def Let_def split: option.split)

lemma sendPrompt_failure_eq:
  "sendPrompt_failure result w =
     w\<lparr>timers := uncleared (slowConnectionTimer (mgr w)) (timers w),
       mgr := (mgr w)\<lparr>createState := ERROR, slowConnectionTimer := None,
               error := Some (or_else (CreateProjectResponse.error result)
                                ''Failed to create project'')\<rparr>,
       analytics := analytics w @
         [(''prompt create project error'',
           [Str ''error'' (or_else (CreateProjectResponse.error result)
                            ''Failed to create project'')])]\<rparr>"
  by (simp add: sendPrompt_failure_def set_state_eq sendAnalytics_def Let_def)

lemma sendPrompt_call_eq:
  "sendPrompt_call prompt images blank w =
     w\<lparr>timers := uncleared (slowConnectionTimer (mgr w)) (timers w)
                   @ slow_schedule (nextTimer w) (now w),
       nextTimer := nextTimer w + 6,
       mgr := (mgr w)\<lparr>createState := CREATE_LOADING, error := None,
               slowConnectionTimer := Some (nextTimer w + 5)\<rparr>,
       requests := requests w @ [if blank then CREATE_NEW_BLANK_PROJECT
                                 else CREATE_NEW_PROJECT_PROMPT prompt images],
       inflight := inflight w @ [AwaitCreate prompt images blank],
       analytics := analytics w @
         [(''prompt create project'', [Str ''prompt'' prompt, Flag ''blank'' blank])]\<rparr>"
  by (simp add: sendPrompt_call_def set_state_eq sendAnalytics_def invokeMainChannel_def
        Let_def)

lemma settle_preserves:
  assumes "P w"
    and "\<And>v ks. P v \<Longrightarrow> P (v\<lparr>inflight := ks\<rparr>)"
    and "\<And>v prompt images blank body.
           P v \<Longrightarrow> P (sendPrompt_success prompt images blank body v)"
    and "\<And>v result. P v \<Longrightarrow> P (sendPrompt_failure result v)"
    and "\<And>v. P v \<Longrightarrow> P (set_state PROMPT v)"
  shows "P (settle i outcome w)"
  using assms
  by (simp add: settle_def sendPrompt_resume_def cancel_resume_def Let_def
        split: continuation.splits settled.splits option.splits)

lemma run_callback_fields:
  "timers (run_callback cb w) = timers w
   \<and> listeners (run_callback cb w) = listeners w
   \<and> createState (mgr (run_callback cb w)) = createState (mgr w)
   \<and> error (mgr (run_callback cb w)) = error (mgr w)
   \<and> cleanupListener (mgr (run_callback cb w)) = cleanupListener (mgr w)
   \<and> slowConnectionTimer (mgr (run_callback cb w)) = slowConnectionTimer (mgr w)"
  by (cases cb) (simp_all add: Let_def)

lemma fire_fields:
  "set (timers (fire t w)) \<subseteq> set (timers w)
   \<and> listeners (fire t w) = listeners w
   \<and> createState (mgr (fire t w)) = createState (mgr w)
   \<and> error (mgr (fire t w)) = error (mgr w)
   \<and> cleanupListener (mgr (fire t w)) = cleanupListener (mgr w)
   \<and> slowConnectionTimer (mgr (fire t w)) = slowConnectionTimer (mgr w)"
  by (auto simp: fire_def run_callback_fields split: option.splits)

lemma error_inv_step: "error_inv w \<Longrightarrow> error_inv (step e w)"
proof (cases e)
  case (Settle i outcome)
  assume "error_inv w"
  then have "error_inv (settle i outcome w)"
    by (rule settle_preserves)
       (simp_all add: error_inv_def get_state_def sendPrompt_success_eq
          sendPrompt_failure_eq set_state_eq)
  with Settle show ?thesis by simp
next
  case (Fire t)
  assume "error_inv w"
  then show ?thesis
    using fire_fields [of t w] Fire by (simp add: error_inv_def get_state_def)
qed (auto simp: error_inv_def get_state_def sendPrompt_call_eq cancel_call_def
       invokeMainChannel_def cleanup_eq listenForPromptProgress_def notify_eq Let_def)

lemma error_inv_exec: "error_inv w \<Longrightarrow> error_inv (exec evs w)"
  unfolding exec_def by (induction evs arbitrary: w) (simp_all add: error_inv_step)

lemma error_inv_new: "error_inv (new_CreateManager pm)"
  by (simp add: error_inv_def new_CreateManager_def listenForPromptProgress_def
        get_state_def Let_def)

lemma error_inv_reachable: "error_inv (reachable pm evs)"
  by (simp add: reachable_def error_inv_exec error_inv_new)

lemma uncleared_no_Guard:
  assumes "handle_inv w" and "x \<in> set (uncleared (slowConnectionTimer (mgr w)) (timers w))"
  shows "snd (snd x) \<noteq> Guard"
  using assms by (auto simp: handle_inv_def uncleared_def split: option.splits)

lemma handle_inv_inflight: "handle_inv (w\<lparr>inflight := ks\<rparr>) = handle_inv w"
  by (simp add: handle_inv_def)

lemma handle_inv_set_state: "handle_inv w \<Longrightarrow> handle_inv (set_state s w)"
  using uncleared_no_Guard [of w]
  by (auto simp: handle_inv_def set_state_eq slow_schedule_def)

lemma handle_inv_success:
  "handle_inv w \<Longrightarrow> handle_inv (sendPrompt_success prompt images blank body w)"
  using uncleared_no_Guard [of w]
  by (subst sendPrompt_success_eq) (auto simp: handle_inv_def)

lemma handle_inv_failure: "handle_inv w \<Longrightarrow> handle_inv (sendPrompt_failure result w)"
  using uncleared_no_Guard [of w]
  by (auto simp: handle_inv_def sendPrompt_failure_eq)

lemma handle_inv_step: "handle_inv w \<Longrightarrow> handle_inv (step e w)"
proof (cases e)
  case (SendPrompt prompt images blank)
  assume "handle_inv w"
  then show ?thesis
    using uncleared_no_Guard [of w] SendPrompt
    by (auto simp: handle_inv_def sendPrompt_call_eq slow_schedule_def)
next
  case Cleanup
  assume "handle_inv w"
  then show ?thesis
    using uncleared_no_Guard [of w] Cleanup
    by (auto simp: handle_inv_def cleanup_eq)
next
  case (Settle i outcome)
  assume "handle_inv w"
  then have "handle_inv (settle i outcome w)"
    by (rule settle_preserves)
       (simp_all add: handle_inv_success handle_inv_failure handle_inv_set_state
          handle_inv_inflight)
  with Settle show ?thesis by simp
next
  case (Fire t)
  assume "handle_inv w"
  then show ?thesis
    using fire_fields [of t w] Fire by (auto simp: handle_inv_def)
qed (auto simp: handle_inv_def cancel_call_def invokeMainChannel_def
       listenForPromptProgress_def notify_eq Let_def)

lemma handle_inv_exec: "handle_inv w \<Longrightarrow> handle_inv (exec evs w)"
  unfolding exec_def by (induction evs arbitrary: w) (simp_all add: handle_inv_step)

lemma handle_inv_new: "handle_inv (new_CreateManager pm)"
  by (simp add: handle_inv_def new_CreateManager_def listenForPromptProgress_def Let_def)

lemma handle_inv_reachable: "handle_inv (reachable pm evs)"
  by (simp add: reachable_def handle_inv_exec handle_inv_new)

lemma reachable_failed_attempt:
  "reachable pm0 [SendPrompt ''x'' [] False, Settle 0 (Fulfilled disk_full)] =
     \<lparr>mgr = \<lparr>createState = ERROR, progress = Num 0, message = None, error = Some ''disk full'',
              cleanupListener = True, slowConnectionTimer = None\<rparr>,
      projectsManager = pm0,
      timers =
        [(1, 15000, SlowMessage ''Finalizing layout...''),
         (2, 30000, SlowMessage ''Drafting copy...''),
         (3, 45000, SlowMessage ''Finalizing design...''),
         (4, 60000, SlowMessage ''Completing setup...''),
         (5, 75000, SlowMessage ''Starting project...'')],
      nextTimer = 7, now = 0, listeners = 1,
      requests = [CREATE_NEW_PROJECT_PROMPT ''x'' []],
      inflight = [],
      analytics =
        [(''prompt create project'', [Str ''prompt'' ''x'', Flag ''blank'' False]),
         (''prompt create project error'', [Str ''error'' ''disk full''])]\<rparr>"
  by (simp add: reachable_def exec_def settle_def sendPrompt_call_eq sendPrompt_resume_def
        sendPrompt_failure_eq new_CreateManager_def listenForPromptProgress_def
        or_else_def disk_full_def truthy_def response_projectPath_def uncleared_def
        slow_schedule_def Let_def)

section \<open>Slow-message timers (C4)\<close>

lemma round_half_even_of_int: "round_half_even (of_int k) = k"
  by (simp add: round_half_even_def)

lemma binade_of_int:
  assumes "m \<noteq> 0"
  shows "binade (of_int m) = bitlen \<bar>m\<bar> - 1"
proof -
  have pos: "0 < \<bar>m\<bar>" using assms by simp
  have "\<bar>of_int m :: rat\<bar> = of_int \<bar>m\<bar>" by simp
  then have q: "quotient_of \<bar>of_int m :: rat\<bar> = (\<bar>m\<bar>, 1)"
    by (simp add: of_int_rat quotient_of_Fract)
  have b1: "bitlen 1 = 1" by (simp add: bitlen_alt_def)
  have ge: "1 \<le> bitlen \<bar>m\<bar>" using pos by (simp add: bitlen_alt_def)
  have "2 ^ nat (bitlen \<bar>m\<bar> - 1) \<le> \<bar>m\<bar>"
    using bitlen_bounds [OF pos] by simp
  then have "(of_int (2 ^ nat (bitlen \<bar>m\<bar> - 1)) :: rat) \<le> of_int \<bar>m\<bar>"
    by (simp only: of_int_le_iff)
  then have "pow2 (bitlen \<bar>m\<bar> - 1) \<le> \<bar>of_int m\<bar>"
    using ge by (simp add: pow2_def)
  then show ?thesis
    by (simp add: binade_def q b1)
qed

text \<open>An integer of magnitude at most \<open>2^53\<close> is a double: rounding leaves it as it is.\<close>

lemma to_double_of_int:
  assumes "\<bar>m\<bar> \<le> 2 ^ 53"
  shows "to_double (of_int m) = Num (of_int m)"
proof (cases "m = 0")
  case True
  then show ?thesis by (simp add: to_double_def)
next
  case False
  define e where "e = bitlen \<bar>m\<bar> - 1"
  have pos: "0 < \<bar>m\<bar>" using False by simp
  have e0: "0 \<le> e" using pos by (simp add: e_def bitlen_alt_def)
  have lo: "2 ^ nat e \<le> \<bar>m\<bar>"
    using bitlen_bounds [OF pos] by (simp add: e_def)
  have e53: "e \<le> 53"
  proof (rule ccontr)
    assume "\<not> e \<le> 53"
    then have "54 \<le> nat e" by simp
    then have "(2::int) ^ 54 \<le> 2 ^ nat e"
      by (intro power_increasing) simp_all
    with lo assms show False by simp
  qed
  have b: "binade (of_int m) = e"
    using binade_of_int [OF False] by (simp add: e_def)
  obtain k :: int where k: "(of_int m :: rat) / pow2 (e - 52) = of_int k"
  proof (cases "e = 53")
    case True
    then have "\<bar>m\<bar> = 2 ^ 53" using lo assms by simp
    then have "m = 2 ^ 53 \<or> m = - (2 ^ 53)" by linarith
    then have "(of_int m :: rat) / pow2 (e - 52) = of_int (m div 2)"
      using True by (auto simp: pow2_def)
    then show ?thesis using that by blast
  next
    case False
    then have le: "e \<le> 52" using e53 by simp
    then have "pow2 (e - 52) = 1 / 2 ^ nat (52 - e)"
      by (cases "e = 52") (simp_all add: pow2_def)
    then have "(of_int m :: rat) / pow2 (e - 52) = of_int (m * 2 ^ nat (52 - e))"
      by simp
    then show ?thesis using that by blast
  qed
  have ulp: "pow2 (e - 52) \<noteq> 0" by (simp add: pow2_def)
  then have r: "(of_int k :: rat) * pow2 (e - 52) = of_int m"
    using k by (metis nonzero_eq_divide_eq)
  have small: "\<not> pow2 1024 \<le> \<bar>of_int m :: rat\<bar>"
  proof -
    have "\<bar>of_int m :: rat\<bar> = of_int \<bar>m\<bar>" by simp
    also have "\<dots> \<le> of_int (2 ^ 53)" using assms by (simp only: of_int_le_iff)
    also have "\<dots> < pow2 1024" by (simp add: pow2_def)
    finally show ?thesis by simp
  qed
  show ?thesis
    using False e0 small
    by (simp add: to_double_def b k r round_half_even_of_int max_def Let_def)
qed

lemma js_add_10_exact:
  assumes "\<bar>n + 10\<bar> \<le> 2 ^ 53"
  shows "js_add (Num (of_int n)) (Num 10) = Num (of_int (n + 10))"
  using to_double_of_int [OF assms] by simp

lemma to_double_10: "to_double 10 = Num 10"
  using to_double_of_int [of 10] by simp

text \<open>Above \<open>2^53\<close> the doubles are the even integers; the tie goes to the even neighbour.\<close>

lemma to_double_above_2_53: "to_double 9007199254741001 = Num 9007199254741000"
  by code_simp

lemma run_callback_SlowMessage_mgr:
  "mgr (run_callback (SlowMessage msg) w) =
     (if get_state w = CREATE_LOADING
      then (mgr w)\<lparr>message := Some msg, progress := js_add (progress (mgr w)) (Num 10)\<rparr>
      else mgr w)"
  by (simp add: Let_def)

lemma fire_SlowMessage_mgr:
  assumes "find (\<lambda>x. fst x = t) (timers w) = Some (t, due, SlowMessage msg)"
  shows "mgr (fire t w) =
           (if due \<le> now w \<and> get_state w = CREATE_LOADING
            then (mgr w)\<lparr>message := Some msg, progress := js_add (progress (mgr w)) (Num 10)\<rparr>
            else mgr w)"
  using assms by (simp add: fire_def get_state_def Let_def)

text \<open>
  C4, as the code has it. What a slow-message callback does is decided by the state at
  the moment it fires. Fired while the state is not \<open>CREATE_LOADING\<close>, it changes nothing.
  Fired while the state is \<open>CREATE_LOADING\<close>, it overwrites \<open>message\<close> with its canned
  string and replaces \<open>progress\<close> by the double sum of \<open>progress\<close> and 10, and changes no
  other field; the sum is exactly 10 more whenever \<open>progress\<close> is an integer and the
  exact sum has magnitude at most \<open>2^53\<close>. A pending timer fires no earlier than it is due.
  Entering \<open>CREATE_LOADING\<close> queues, behind the timers already pending (less the old
  guard), the five callbacks at 15, 30, 45, 60 and 75 seconds from now with their canned
  strings, and the guard at 75 seconds.
\<close>

theorem slow_message_decided_at_fire_time:
  "(get_state w \<noteq> CREATE_LOADING \<longrightarrow> run_callback (SlowMessage msg) w = w)
   \<and> (get_state w = CREATE_LOADING \<longrightarrow>
        mgr (run_callback (SlowMessage msg) w) =
          (mgr w)\<lparr>message := Some msg, progress := js_add (progress (mgr w)) (Num 10)\<rparr>)
   \<and> (find (\<lambda>x. fst x = t) (timers w) = Some (t, due, SlowMessage msg) \<longrightarrow>
        mgr (fire t w) =
          (if due \<le> now w \<and> get_state w = CREATE_LOADING
           then (mgr w)\<lparr>message := Some msg,
                        progress := js_add (progress (mgr w)) (Num 10)\<rparr>
           else mgr w))
   \<and> (\<bar>n + 10\<bar> \<le> 2 ^ 53 \<longrightarrow> js_add (Num (of_int n)) (Num 10) = Num (of_int (n + 10)))
   \<and> timers (set_state CREATE_LOADING w) =
       uncleared (slowConnectionTimer (mgr w)) (timers w)
         @ [(nextTimer w, now w + 15000, SlowMessage ''Finalizing layout...''),
            (nextTimer w + 1, now w + 30000, SlowMessage ''Drafting copy...''),
            (nextTimer w + 2, now w + 45000, SlowMessage ''Finalizing design...''),
            (nextTimer w + 3, now w + 60000, SlowMessage ''Completing setup...''),
            (nextTimer w + 4, now w + 75000, SlowMessage ''Starting project...''),
            (nextTimer w + 5, now w + 75000, Guard)]"
proof -
  have a: "get_state w \<noteq> CREATE_LOADING \<longrightarrow> run_callback (SlowMessage msg) w = w"
    by simp
  have b: "get_state w = CREATE_LOADING \<longrightarrow>
      mgr (run_callback (SlowMessage msg) w) =
        (mgr w)\<lparr>message := Some msg, progress := js_add (progress (mgr w)) (Num 10)\<rparr>"
    by (simp add: run_callback_SlowMessage_mgr)
  have c: "find (\<lambda>x. fst x = t) (timers w) = Some (t, due, SlowMessage msg) \<longrightarrow>
      mgr (fire t w) =
        (if due \<le> now w \<and> get_state w = CREATE_LOADING
         then (mgr w)\<lparr>message := Some msg,
                      progress := js_add (progress (mgr w)) (Num 10)\<rparr>
         else mgr w)"
    using fire_SlowMessage_mgr [of t w due msg] by blast
  have d: "\<bar>n + 10\<bar> \<le> 2 ^ 53 \<longrightarrow>
      js_add (Num (of_int n)) (Num 10) = Num (of_int (n + 10))"
    using js_add_10_exact [of n] by blast
  have e: "timers (set_state CREATE_LOADING w) =
       uncleared (slowConnectionTimer (mgr w)) (timers w)
         @ [(nextTimer w, now w + 15000, SlowMessage ''Finalizing layout...''),
            (nextTimer w + 1, now w + 30000, SlowMessage ''Drafting copy...''),
            (nextTimer w + 2, now w + 45000, SlowMessage ''Finalizing design...''),
            (nextTimer w + 3, now w + 60000, SlowMessage ''Completing setup...''),
            (nextTimer w + 4, now w + 75000, SlowMessage ''Starting project...''),
            (nextTimer w + 5, now w + 75000, Guard)]"
    by (simp add: set_state_eq slow_schedule_def)
  from a b c d e show ?thesis by blast
qed

lemma reachable_snoc: "reachable pm (evs @ [e]) = step e (reachable pm evs)"
  by (simp add: reachable_def exec_def)

lemma reachable_first_attempt:
  "reachable pm0 [SendPrompt ''x'' [] False, Advance 15000] =
     \<lparr>mgr = \<lparr>createState = CREATE_LOADING, progress = Num 0, message = None, error = None,
              cleanupListener = True, slowConnectionTimer = Some 6\<rparr>,
      projectsManager = pm0,
      timers = slow_schedule 1 0,
      nextTimer = 7, now = 15000, listeners = 1,
      requests = [CREATE_NEW_PROJECT_PROMPT ''x'' []],
      inflight = [AwaitCreate ''x'' [] False],
      analytics = [(''prompt create project'', [Str ''prompt'' ''x'', Flag ''blank'' False])]\<rparr>"
  by (simp add: reachable_def exec_def sendPrompt_call_def set_state_eq sendAnalytics_def
        invokeMainChannel_def new_CreateManager_def listenForPromptProgress_def
        uncleared_def Let_def)

lemma reachable_failed_attempt_due:
  "reachable pm0 [SendPrompt ''x'' [] False, Settle 0 (Fulfilled disk_full), Advance 15000] =
     \<lparr>mgr = \<lparr>createState = ERROR, progress = Num 0, message = None,
              error = Some ''disk full'', cleanupListener = True,
              slowConnectionTimer = None\<rparr>,
      projectsManager = pm0,
      timers =
        [(1, 15000, SlowMessage ''Finalizing layout...''),
         (2, 30000, SlowMessage ''Drafting copy...''),
         (3, 45000, SlowMessage ''Finalizing design...''),
         (4, 60000, SlowMessage ''Completing setup...''),
         (5, 75000, SlowMessage ''Starting project...'')],
      nextTimer = 7, now = 15000, listeners = 1,
      requests = [CREATE_NEW_PROJECT_PROMPT ''x'' []],
      inflight = [],
      analytics =
        [(''prompt create project'', [Str ''prompt'' ''x'', Flag ''blank'' False]),
         (''prompt create project error'', [Str ''error'' ''disk full''])]\<rparr>"
  by (simp add: reachable_def exec_def settle_def sendPrompt_call_eq sendPrompt_resume_def
        sendPrompt_failure_eq new_CreateManager_def listenForPromptProgress_def
        or_else_def disk_full_def truthy_def response_projectPath_def uncleared_def
        slow_schedule_def Let_def)

lemma reachable_retry_trace:
  "reachable pm0 retry_trace =
     \<lparr>mgr = \<lparr>createState = CREATE_LOADING, progress = Num 0, message = None, error = None,
              cleanupListener = True, slowConnectionTimer = Some 12\<rparr>,
      projectsManager = pm0,
      timers =
        [(1, 15000, SlowMessage ''Finalizing layout...''),
         (2, 30000, SlowMessage ''Drafting copy...''),
         (3, 45000, SlowMessage ''Finalizing design...''),
         (4, 60000, SlowMessage ''Completing setup...''),
         (5, 75000, SlowMessage ''Starting project...'')] @ slow_schedule 7 5000,
      nextTimer = 13, now = 15000, listeners = 1,
      requests = [CREATE_NEW_PROJECT_PROMPT ''x'' [], CANCEL_CREATE_NEW_PROJECT_PROMPT,
                  CREATE_NEW_PROJECT_PROMPT ''x'' []],
      inflight = [AwaitCreate ''x'' [] False, AwaitCreate ''x'' [] False],
      analytics =
        [(''prompt create project'', [Str ''prompt'' ''x'', Flag ''blank'' False]),
         (''prompt create project'', [Str ''prompt'' ''x'', Flag ''blank'' False])]\<rparr>"
  by (simp add: reachable_def exec_def retry_trace_def settle_def sendPrompt_call_def
        cancel_call_def cancel_resume_def set_state_eq sendAnalytics_def
        invokeMainChannel_def new_CreateManager_def listenForPromptProgress_def
        uncleared_def slow_schedule_def Let_def)

lemma reachable_large_progress_trace:
  "reachable pm0 large_progress_trace =
     \<lparr>mgr = \<lparr>createState = CREATE_LOADING, progress = Num 9007199254740991,
              message = Some ''m'', error = None,
              cleanupListener = True, slowConnectionTimer = Some 6\<rparr>,
      projectsManager = pm0,
      timers = slow_schedule 1 0,
      nextTimer = 7, now = 15000, listeners = 1,
      requests = [CREATE_NEW_PROJECT_PROMPT ''x'' []],
      inflight = [AwaitCreate ''x'' [] False],
      analytics = [(''prompt create project'', [Str ''prompt'' ''x'', Flag ''blank'' False])]\<rparr>"
  by (simp add: reachable_def exec_def large_progress_trace_def sendPrompt_call_eq
        notify_eq new_CreateManager_def listenForPromptProgress_def uncleared_def Let_def)

theorem slow_message_decided_at_fire_time_witness:
  "get_state (reachable pm0 [SendPrompt ''x'' [] False, Advance 15000]) = CREATE_LOADING
   \<and> find (\<lambda>x. fst x = 1) (timers (reachable pm0 [SendPrompt ''x'' [] False, Advance 15000]))
       = Some (1, 15000, SlowMessage ''Finalizing layout...'')
   \<and> mgr (fire 1 (reachable pm0 [SendPrompt ''x'' [] False, Advance 15000])) =
       \<lparr>createState = CREATE_LOADING, progress = Num 10,
        message = Some ''Finalizing layout...'', error = None,
        cleanupListener = True, slowConnectionTimer = Some 6\<rparr>
   \<and> get_state (reachable pm0 [SendPrompt ''x'' [] False, Settle 0 (Fulfilled disk_full),
                                Advance 15000]) = ERROR
   \<and> find (\<lambda>x. fst x = 1)
        (timers (reachable pm0 [SendPrompt ''x'' [] False, Settle 0 (Fulfilled disk_full),
                                Advance 15000]))
       = Some (1, 15000, SlowMessage ''Finalizing layout...'')
   \<and> mgr (fire 1 (reachable pm0 [SendPrompt ''x'' [] False, Settle 0 (Fulfilled disk_full),
                                  Advance 15000])) =
       \<lparr>createState = ERROR, progress = Num 0, message = None, error = Some ''disk full'',
        cleanupListener = True, slowConnectionTimer = None\<rparr>"
  using slow_message_decided_at_fire_time
    [where w = "reachable pm0 [SendPrompt ''x'' [] False, Advance 15000]" and t = 1
       and due = 15000 and msg = "''Finalizing layout...''" and n = 0]
    slow_message_decided_at_fire_time
    [where w = "reachable pm0 [SendPrompt ''x'' [] False, Settle 0 (Fulfilled disk_full),
                               Advance 15000]" and t = 1
       and due = 15000 and msg = "''Finalizing layout...''" and n = 0]
  by (simp add: reachable_first_attempt reachable_failed_attempt_due slow_schedule_def
        get_state_def)

text \<open>
  The claim as stated stops the callbacks of an attempt once the state has left
  \<open>CREATE_LOADING\<close>. Here the first attempt is cancelled (the state is \<open>PROMPT\<close>) and a
  second one started before the first attempt's 15 second timer, handle 1, is due. When
  that timer fires, \<open>message\<close> and \<open>progress\<close> change. The claim also has every callback
  add exactly 10. With \<open>progress\<close> at \<open>2^53 - 1\<close>, where the exact sum is not a double, the
  callback leaves \<open>progress\<close> 9 more than it was.
\<close>

theorem slow_message_after_reentry_counterexample:
  "get_state (reachable pm0 (take 4 retry_trace)) = PROMPT
   \<and> hd (timers (reachable pm0 (take 4 retry_trace))) =
       (1, 15000, SlowMessage ''Finalizing layout...'')
   \<and> message (mgr (reachable pm0 retry_trace)) = None
   \<and> progress (mgr (reachable pm0 retry_trace)) = Num 0
   \<and> message (mgr (reachable pm0 (retry_trace @ [Fire 1]))) = Some ''Finalizing layout...''
   \<and> progress (mgr (reachable pm0 (retry_trace @ [Fire 1]))) = Num 10
   \<and> progress (mgr (reachable pm0 large_progress_trace)) = Num 9007199254740991
   \<and> progress (mgr (reachable pm0 (large_progress_trace @ [Fire 1]))) = Num 9007199254741000"
proof -
  have b: "get_state (reachable pm0 (take 4 retry_trace)) = PROMPT
     \<and> hd (timers (reachable pm0 (take 4 retry_trace))) =
         (1, 15000, SlowMessage ''Finalizing layout...'')"
    by (simp add: reachable_def exec_def retry_trace_def settle_def sendPrompt_call_def
          cancel_call_def cancel_resume_def set_state_eq sendAnalytics_def
          invokeMainChannel_def new_CreateManager_def listenForPromptProgress_def
          uncleared_def slow_schedule_def get_state_def Let_def)
  have c: "message (mgr (reachable pm0 retry_trace)) = None
     \<and> progress (mgr (reachable pm0 retry_trace)) = Num 0"
    by (simp add: reachable_retry_trace)
  have d: "message (mgr (reachable pm0 (retry_trace @ [Fire 1]))) = Some ''Finalizing layout...''
     \<and> progress (mgr (reachable pm0 (retry_trace @ [Fire 1]))) = Num 10"
    by (simp add: reachable_snoc reachable_retry_trace fire_def get_state_def to_double_10
          Let_def)
  have e: "progress (mgr (reachable pm0 large_progress_trace)) = Num 9007199254740991"
    by (simp add: reachable_large_progress_trace)
  have f: "progress (mgr (reachable pm0 (large_progress_trace @ [Fire 1]))) =
      Num 9007199254741000"
    by (simp add: reachable_snoc reachable_large_progress_trace fire_def get_state_def
          slow_schedule_def to_double_above_2_53 Let_def)
  from b c d e f show ?thesis by blast
qed


section \<open>When error is non-null (C3)\<close>

text \<open>
  C3, as the code has it. In every world reachable by the public operations (calls of
  \<open>sendPrompt\<close> settled with any outcome, \<open>cancel\<close>, \<open>cleanup\<close>, progress
  notifications, timer firings), \<open>error\<close> is non-null only when the state is \<open>ERROR\<close> or
  \<open>PROMPT\<close>, and it is non-null whenever the state is \<open>ERROR\<close>. The start of every
  \<open>sendPrompt\<close> attempt resets \<open>error\<close> to null.
\<close>

theorem error_null_outside_ERROR_and_PROMPT:
  "(error (mgr (reachable pm evs)) \<noteq> None \<longrightarrow>
      get_state (reachable pm evs) = ERROR \<or> get_state (reachable pm evs) = PROMPT)
   \<and> (get_state (reachable pm evs) = ERROR \<longrightarrow> error (mgr (reachable pm evs)) \<noteq> None)
   \<and> error (mgr (sendPrompt_call prompt images blank w)) = None"
  using error_inv_reachable [of pm evs]
  by (cases "get_state (reachable pm evs)")
     (auto simp: error_inv_def sendPrompt_call_mgr)

theorem error_null_outside_ERROR_and_PROMPT_witness:
  "error (mgr (reachable pm0 [SendPrompt ''x'' [] False, Settle 0 (Fulfilled disk_full)]))
     = Some ''disk full''
   \<and> get_state (reachable pm0 [SendPrompt ''x'' [] False, Settle 0 (Fulfilled disk_full)])
       = ERROR
   \<and> error (mgr (sendPrompt_call ''y'' [] False
        (reachable pm0 [SendPrompt ''x'' [] False, Settle 0 (Fulfilled disk_full)]))) = None"
  using error_null_outside_ERROR_and_PROMPT
    [where pm = pm0 and evs = "[SendPrompt ''x'' [] False, Settle 0 (Fulfilled disk_full)]"
       and prompt = "''y''" and images = "[]" and blank = False
       and w = "reachable pm0 [SendPrompt ''x'' [] False, Settle 0 (Fulfilled disk_full)]"]
  by (simp add: reachable_failed_attempt get_state_def)

text \<open>
  The claim as stated has \<open>error\<close> null in every state but \<open>ERROR\<close>. \<open>cancel()\<close> after a
  failed attempt returns to \<open>PROMPT\<close> and leaves \<open>error\<close> as it was.
\<close>

theorem error_after_cancel_counterexample:
  "get_state (reachable pm0 [SendPrompt ''x'' [] False, Settle 0 (Fulfilled disk_full),
                            Cancel, Settle 0 (Fulfilled ack)]) = PROMPT
   \<and> error (mgr (reachable pm0 [SendPrompt ''x'' [] False, Settle 0 (Fulfilled disk_full),
                                 Cancel, Settle 0 (Fulfilled ack)])) = Some ''disk full''"
proof -
  have "reachable pm0 [SendPrompt ''x'' [] False, Settle 0 (Fulfilled disk_full),
                       Cancel, Settle 0 (Fulfilled ack)] =
        step (Settle 0 (Fulfilled ack)) (step Cancel
          (reachable pm0 [SendPrompt ''x'' [] False, Settle 0 (Fulfilled disk_full)]))"
    by (simp add: reachable_def exec_def)
  then show ?thesis
    by (simp add: reachable_failed_attempt settle_def cancel_call_def cancel_resume_def
          invokeMainChannel_def set_state_eq get_state_def Let_def)
qed

section \<open>Cleanup (C6)\<close>

lemma set_uncleared: "set (uncleared h ts) \<subseteq> set ts"
  by (auto simp: uncleared_def split: option.splits)

lemma fire_nextTimer: "nextTimer (fire t w) = nextTimer w"
proof -
  have "nextTimer (run_callback cb v) = nextTimer v" for cb v
    by (cases cb) (simp_all add: Let_def)
  then show ?thesis
    by (simp add: fire_def split: option.splits)
qed

lemma fresh_inv_inflight: "fresh_inv (w\<lparr>inflight := ks\<rparr>) = fresh_inv w"
  by (simp add: fresh_inv_def)

lemma fresh_inv_set_state: "fresh_inv w \<Longrightarrow> fresh_inv (set_state s w)"
  using set_uncleared [of "slowConnectionTimer (mgr w)" "timers w"]
  by (fastforce simp: fresh_inv_def set_state_eq slow_schedule_def)

lemma fresh_inv_success:
  "fresh_inv w \<Longrightarrow> fresh_inv (sendPrompt_success prompt images blank body w)"
  using set_uncleared [of "slowConnectionTimer (mgr w)" "timers w"]
  by (subst sendPrompt_success_eq) (fastforce simp: fresh_inv_def)

lemma fresh_inv_failure: "fresh_inv w \<Longrightarrow> fresh_inv (sendPrompt_failure result w)"
  using set_uncleared [of "slowConnectionTimer (mgr w)" "timers w"]
  by (fastforce simp: fresh_inv_def sendPrompt_failure_eq)

lemma fresh_inv_step: "fresh_inv w \<Longrightarrow> fresh_inv (step e w)"
proof (cases e)
  case (SendPrompt prompt images blank)
  assume "fresh_inv w"
  then show ?thesis
    using set_uncleared [of "slowConnectionTimer (mgr w)" "timers w"] SendPrompt
    by (fastforce simp: fresh_inv_def sendPrompt_call_eq slow_schedule_def)
next
  case Cleanup
  assume "fresh_inv w"
  then show ?thesis
    using set_uncleared [of "slowConnectionTimer (mgr w)" "timers w"] Cleanup
    by (fastforce simp: fresh_inv_def cleanup_eq)
next
  case (Settle i outcome)
  assume "fresh_inv w"
  then have "fresh_inv (settle i outcome w)"
    by (rule settle_preserves)
       (simp_all add: fresh_inv_success fresh_inv_failure fresh_inv_set_state
          fresh_inv_inflight)
  with Settle show ?thesis by simp
next
  case (Fire t)
  assume "fresh_inv w"
  then show ?thesis
    using fire_fields [of t w] fire_nextTimer [of t w] Fire
    by (fastforce simp: fresh_inv_def)
qed (auto simp: fresh_inv_def cancel_call_def invokeMainChannel_def
       listenForPromptProgress_def notify_eq Let_def)

lemma fresh_inv_exec: "fresh_inv w \<Longrightarrow> fresh_inv (exec evs w)"
  unfolding exec_def by (induction evs arbitrary: w) (simp_all add: fresh_inv_step)

lemma fresh_inv_new: "fresh_inv (new_CreateManager pm)"
  by (simp add: fresh_inv_def new_CreateManager_def listenForPromptProgress_def Let_def)

lemma fresh_inv_reachable: "fresh_inv (reachable pm evs)"
  by (simp add: reachable_def fresh_inv_exec fresh_inv_new)

lemma uncleared_keeps_others:
  assumes "fresh_inv w" and "x \<in> set (timers w)" and "snd (snd x) \<noteq> Guard"
  shows "x \<in> set (uncleared (slowConnectionTimer (mgr w)) (timers w))"
  using assms by (auto simp: fresh_inv_def uncleared_def split: option.splits)

lemma cleanup_idem: "cleanup (cleanup w) = cleanup w"
  by (simp add: cleanup_eq uncleared_def)

text \<open>
  C6, as the code has it. \<open>cleanup()\<close> has no failing step. From every reachable world
  (also one with nothing attached), after it returns no handler is registered on the
  progress channel, the manager holds neither the detach closure nor a timer handle, and
  no guard timer is pending; of the pending timers it removes the one whose handle the
  manager held and no other, so every pending timer that is not the guard (a slow
  message, the tab switch, the runner start) is still pending. A second call changes
  nothing.
\<close>

theorem cleanup_twice_detaches:
  "listeners (cleanup (reachable pm evs)) = 0
   \<and> \<not> cleanupListener (mgr (cleanup (reachable pm evs)))
   \<and> slowConnectionTimer (mgr (cleanup (reachable pm evs))) = None
   \<and> (\<forall>x \<in> set (timers (cleanup (reachable pm evs))). snd (snd x) \<noteq> Guard)
   \<and> timers (cleanup (reachable pm evs)) =
       uncleared (slowConnectionTimer (mgr (reachable pm evs))) (timers (reachable pm evs))
   \<and> (\<forall>x \<in> set (timers (reachable pm evs)).
          snd (snd x) \<noteq> Guard \<longrightarrow> x \<in> set (timers (cleanup (reachable pm evs))))
   \<and> cleanup (cleanup (reachable pm evs)) = cleanup (reachable pm evs)"
proof -
  have inv: "handle_inv (reachable pm evs)"
    by (rule handle_inv_reachable)
  have fresh: "fresh_inv (reachable pm evs)"
    by (rule fresh_inv_reachable)
  have l: "listeners (cleanup (reachable pm evs)) = 0"
    using inv by (auto simp: cleanup_eq handle_inv_def)
  have c: "\<not> cleanupListener (mgr (cleanup (reachable pm evs)))"
    by (simp add: cleanup_eq)
  have h: "slowConnectionTimer (mgr (cleanup (reachable pm evs))) = None"
    by (simp add: cleanup_eq)
  have t: "timers (cleanup (reachable pm evs)) =
      uncleared (slowConnectionTimer (mgr (reachable pm evs))) (timers (reachable pm evs))"
    by (simp add: cleanup_eq)
  have g: "\<forall>x \<in> set (timers (cleanup (reachable pm evs))). snd (snd x) \<noteq> Guard"
    unfolding t using uncleared_no_Guard [OF inv] by blast
  have k: "\<forall>x \<in> set (timers (reachable pm evs)).
      snd (snd x) \<noteq> Guard \<longrightarrow> x \<in> set (timers (cleanup (reachable pm evs)))"
    unfolding t using uncleared_keeps_others [OF fresh] by blast
  from l c h g t k cleanup_idem [of "reachable pm evs"] show ?thesis
    by blast
qed

theorem cleanup_twice_detaches_witness:
  "listeners (reachable pm0 [SendPrompt ''x'' [] False]) = 1
   \<and> (6, 75000, Guard) \<in> set (timers (reachable pm0 [SendPrompt ''x'' [] False]))
   \<and> listeners (reachable pm0 [SendPrompt ''x'' [] False, Cleanup, Cleanup]) = 0
   \<and> (6, 75000, Guard) \<notin> set (timers (reachable pm0 [SendPrompt ''x'' [] False, Cleanup, Cleanup]))
   \<and> slowConnectionTimer (mgr (reachable pm0 [SendPrompt ''x'' [] False, Cleanup, Cleanup]))
       = None
   \<and> (1, 15000, SlowMessage ''Finalizing layout...'')
       \<in> set (timers (reachable pm0 [SendPrompt ''x'' [] False]))
   \<and> (1, 15000, SlowMessage ''Finalizing layout...'')
       \<in> set (timers (reachable pm0 [SendPrompt ''x'' [] False, Cleanup, Cleanup]))"
proof -
  have a: "reachable pm0 [SendPrompt ''x'' [] False, Cleanup, Cleanup] =
           cleanup (cleanup (reachable pm0 [SendPrompt ''x'' [] False]))"
    by (simp add: reachable_def exec_def)
  have b: "listeners (reachable pm0 [SendPrompt ''x'' [] False]) = 1
     \<and> (6, 75000, Guard) \<in> set (timers (reachable pm0 [SendPrompt ''x'' [] False]))
     \<and> (1, 15000, SlowMessage ''Finalizing layout...'')
         \<in> set (timers (reachable pm0 [SendPrompt ''x'' [] False]))"
    by (simp add: reachable_def exec_def sendPrompt_call_eq new_CreateManager_def
          listenForPromptProgress_def uncleared_def slow_schedule_def Let_def)
  note t = cleanup_twice_detaches [of pm0 "[SendPrompt ''x'' [] False]"]
  from t have c: "cleanup (cleanup (reachable pm0 [SendPrompt ''x'' [] False])) =
      cleanup (reachable pm0 [SendPrompt ''x'' [] False])"
    by blast
  from t have "\<forall>x \<in> set (timers (cleanup (reachable pm0 [SendPrompt ''x'' [] False]))).
      snd (snd x) \<noteq> Guard"
    by blast
  then have g: "(6, 75000, Guard) \<notin>
      set (timers (cleanup (reachable pm0 [SendPrompt ''x'' [] False])))"
    by force
  from t have l: "listeners (cleanup (reachable pm0 [SendPrompt ''x'' [] False])) = 0"
    and h: "slowConnectionTimer (mgr (cleanup (reachable pm0 [SendPrompt ''x'' [] False])))
      = None"
    by blast+
  from t have "\<forall>x \<in> set (timers (reachable pm0 [SendPrompt ''x'' [] False])).
      snd (snd x) \<noteq> Guard \<longrightarrow>
      x \<in> set (timers (cleanup (reachable pm0 [SendPrompt ''x'' [] False])))"
    by blast
  with b have s: "(1, 15000, SlowMessage ''Finalizing layout...'')
      \<in> set (timers (cleanup (reachable pm0 [SendPrompt ''x'' [] False])))"
    by force
  show ?thesis
    unfolding a c using b g l h s by blast
qed

text \<open>
  The claim as stated leaves no scheduled timer of the manager pending. After a
  \<open>sendPrompt\<close> call and two calls of \<open>cleanup()\<close> the five slow-message timers are still
  pending, and the first of them, once due, overwrites \<open>message\<close>.
\<close>

theorem cleanup_leaves_timers_counterexample:
  "timers (reachable pm0 [SendPrompt ''x'' [] False, Cleanup, Cleanup]) =
     [(1, 15000, SlowMessage ''Finalizing layout...''),
      (2, 30000, SlowMessage ''Drafting copy...''),
      (3, 45000, SlowMessage ''Finalizing design...''),
      (4, 60000, SlowMessage ''Completing setup...''),
      (5, 75000, SlowMessage ''Starting project...'')]
   \<and> message (mgr (reachable pm0 [SendPrompt ''x'' [] False, Cleanup, Cleanup])) = None
   \<and> message (mgr (reachable pm0 [SendPrompt ''x'' [] False, Cleanup, Cleanup,
                                   Advance 15000, Fire 1])) = Some ''Finalizing layout...''"
  by (simp add: reachable_def exec_def sendPrompt_call_eq cleanup_eq new_CreateManager_def
        listenForPromptProgress_def uncleared_def slow_schedule_def fire_def get_state_def
        Let_def)

end
